theory Spec2Isabelle
  imports Main "HOL-Library.Sublist"
begin

section \<open>The widget-target patcher of EhViewer-Apple (add_widget_target.py)\<close>

text \<open>
  The script reads the project descriptor named on the command line, applies sixteen
  \<^verbatim>\<open>content.replace(old, new)\<close> calls in their written order and writes the text back to
  the same path.  Texts are lists of characters; the script's literals are ASCII.
\<close>

subsection \<open>Python's \<^verbatim>\<open>str.replace\<close>\<close>

text \<open>
  \<^verbatim>\<open>s.replace(old, new)\<close> scans \<open>s\<close> from the left and replaces every non-overlapping
  occurrence of \<open>old\<close>; after a match the scan resumes behind the matched text.  For the
  empty \<open>old\<close> Python puts \<open>new\<close> in front of every character and at the end.
\<close>

fun str_replace :: "string \<Rightarrow> string \<Rightarrow> string \<Rightarrow> string" where
  "str_replace s [] new = new @ concat (map (\<lambda>c. c # new) s)"
| "str_replace [] (a # old) new = []"
| "str_replace (c # cs) (a # old) new =
     (if prefix (a # old) (c # cs)
      then new @ str_replace (drop (length old) cs) (a # old) new
      else c # str_replace cs (a # old) new)"

subsection \<open>The literals of the script\<close>

definition T1 :: string where "T1 = [CHR 0x09]"
definition T2 :: string where "T2 = [CHR 0x09, CHR 0x09]"
definition T3 :: string where "T3 = [CHR 0x09, CHR 0x09, CHR 0x09]"
definition T4 :: string where "T4 = [CHR 0x09, CHR 0x09, CHR 0x09, CHR 0x09]"
definition T5 :: string where "T5 = [CHR 0x09, CHR 0x09, CHR 0x09, CHR 0x09, CHR 0x09]"
definition T6 :: string where "T6 = [CHR 0x09, CHR 0x09, CHR 0x09, CHR 0x09, CHR 0x09, CHR 0x09]"
definition NL :: string where "NL = [CHR 0x0A]"

definition ID_TARGET :: string where
  "ID_TARGET = ''DC9A30012F40A10100AABB01''"

definition ID_PRODUCT_REF :: string where
  "ID_PRODUCT_REF = ''DC9A30022F40A10100AABB02''"

definition ID_SYNC_GROUP :: string where
  "ID_SYNC_GROUP = ''DC9A30032F40A10100AABB03''"

definition ID_FRAMEWORKS :: string where
  "ID_FRAMEWORKS = ''DC9A30042F40A10100AABB04''"

definition ID_SOURCES :: string where
  "ID_SOURCES = ''DC9A30052F40A10100AABB05''"

definition ID_RESOURCES :: string where
  "ID_RESOURCES = ''DC9A30062F40A10100AABB06''"

definition ID_EMBED_PHASE :: string where
  "ID_EMBED_PHASE = ''DC9A30072F40A10100AABB07''"

definition ID_PROXY :: string where
  "ID_PROXY = ''DC9A30082F40A10100AABB08''"

definition ID_DEPENDENCY :: string where
  "ID_DEPENDENCY = ''DC9A30092F40A10100AABB09''"

definition ID_CFG_DEBUG :: string where
  "ID_CFG_DEBUG = ''DC9A300A2F40A10100AABB0A''"

definition ID_CFG_RELEASE :: string where
  "ID_CFG_RELEASE = ''DC9A300B2F40A10100AABB0B''"

definition ID_CFG_LIST :: string where
  "ID_CFG_LIST = ''DC9A300C2F40A10100AABB0C''"

definition ID_EMBED_FILE :: string where
  "ID_EMBED_FILE = ''DC9A300D2F40A10100AABB0D''"

definition ID_PROJECT :: string where
  "ID_PROJECT = ''DC4A07602F3DA21800717C38''"

definition ID_APP_TARGET :: string where
  "ID_APP_TARGET = ''DC4A07672F3DA21800717C38''"

definition ID_PRODUCTS :: string where
  "ID_PRODUCTS = ''DC4A07692F3DA21800717C38''"

definition ID_MAIN_GROUP :: string where
  "ID_MAIN_GROUP = ''DC4A075F2F3DA21800717C38''"

definition build_file_entry :: string where
  \<open>build_file_entry =
     T2 @ ID_EMBED_FILE @ '' /* EhDownloadWidget.appex in Embed Foundation Extensions */ = {isa = PBXBuildFile; fileRef = '' @ ID_PRODUCT_REF @ '' /* EhDownloadWidget.appex */; settings = {ATTRIBUTES = (RemoveHeadersOnCopy, ); }; };'' @ NL\<close>

definition proxy_entry :: string where
  \<open>proxy_entry =
     T2 @ ID_PROXY @ '' /* PBXContainerItemProxy */ = {'' @ NL @
     T3 @ ''isa = PBXContainerItemProxy;'' @ NL @
     T3 @ ''containerPortal = '' @ ID_PROJECT @ '' /* Project object */;'' @ NL @
     T3 @ ''proxyType = 1;'' @ NL @
     T3 @ ''remoteGlobalIDString = '' @ ID_TARGET @ '';'' @ NL @
     T3 @ ''remoteInfo = EhDownloadWidget;'' @ NL @
     T2 @ ''};'' @ NL\<close>

definition copy_phase :: string where
  \<open>copy_phase =
     ''/* Begin PBXCopyFilesBuildPhase section */'' @ NL @
     T2 @ ID_EMBED_PHASE @ '' /* Embed Foundation Extensions */ = {'' @ NL @
     T3 @ ''isa = PBXCopyFilesBuildPhase;'' @ NL @
     T3 @ ''buildActionMask = 2147483647;'' @ NL @
     T3 @ ''dstPath = "";'' @ NL @
     T3 @ ''dstSubfolderSpec = 13;'' @ NL @
     T3 @ ''files = ('' @ NL @
     T4 @ ID_EMBED_FILE @ '' /* EhDownloadWidget.appex in Embed Foundation Extensions */,'' @ NL @
     T3 @ '');'' @ NL @
     T3 @ ''name = "Embed Foundation Extensions";'' @ NL @
     T3 @ ''runOnlyForDeploymentPostprocessing = 0;'' @ NL @
     T2 @ ''};'' @ NL @
     ''/* End PBXCopyFilesBuildPhase section */'' @ NL @
     NL\<close>

definition file_ref :: string where
  \<open>file_ref =
     T2 @ ID_PRODUCT_REF @ '' /* EhDownloadWidget.appex */ = {isa = PBXFileReference; explicitFileType = "wrapper.app-extension"; includeInIndex = 0; path = EhDownloadWidget.appex; sourceTree = BUILT_PRODUCTS_DIR; };'' @ NL\<close>

definition sync_group :: string where
  \<open>sync_group =
     T2 @ ID_SYNC_GROUP @ '' /* EhDownloadWidget */ = {'' @ NL @
     T3 @ ''isa = PBXFileSystemSynchronizedRootGroup;'' @ NL @
     T3 @ ''exceptions = ('' @ NL @
     T3 @ '');'' @ NL @
     T3 @ ''path = EhDownloadWidget;'' @ NL @
     T3 @ ''sourceTree = "<group>";'' @ NL @
     T2 @ ''};'' @ NL\<close>

definition fw_phase :: string where
  \<open>fw_phase =
     T2 @ ID_FRAMEWORKS @ '' /* Frameworks */ = {'' @ NL @
     T3 @ ''isa = PBXFrameworksBuildPhase;'' @ NL @
     T3 @ ''buildActionMask = 2147483647;'' @ NL @
     T3 @ ''files = ('' @ NL @
     T3 @ '');'' @ NL @
     T3 @ ''runOnlyForDeploymentPostprocessing = 0;'' @ NL @
     T2 @ ''};'' @ NL\<close>

definition old_products :: string where
  \<open>old_products =
     T2 @ ID_PRODUCTS @ '' /* Products */ = {'' @ NL @
     T3 @ ''isa = PBXGroup;'' @ NL @
     T3 @ ''children = ('' @ NL @
     T4 @ ''DC4A07682F3DA21800717C38 /* ehviewer apple.app */,'' @ NL @
     T4 @ ''DC4A07792F3DA21800717C38 /* ehviewer appleTests.xctest */,'' @ NL @
     T4 @ ''DC4A07832F3DA21800717C38 /* ehviewer appleUITests.xctest */,'' @ NL @
     T3 @ '');''\<close>

definition new_products :: string where
  \<open>new_products =
     T2 @ ID_PRODUCTS @ '' /* Products */ = {'' @ NL @
     T3 @ ''isa = PBXGroup;'' @ NL @
     T3 @ ''children = ('' @ NL @
     T4 @ ''DC4A07682F3DA21800717C38 /* ehviewer apple.app */,'' @ NL @
     T4 @ ''DC4A07792F3DA21800717C38 /* ehviewer appleTests.xctest */,'' @ NL @
     T4 @ ''DC4A07832F3DA21800717C38 /* ehviewer appleUITests.xctest */,'' @ NL @
     T4 @ ID_PRODUCT_REF @ '' /* EhDownloadWidget.appex */,'' @ NL @
     T3 @ '');''\<close>

definition old_root :: string where
  \<open>old_root =
     T2 @ ID_MAIN_GROUP @ '' = {'' @ NL @
     T3 @ ''isa = PBXGroup;'' @ NL @
     T3 @ ''children = ('' @ NL @
     T4 @ ''DC4A076A2F3DA21800717C38 /* ehviewer apple */,'' @ NL @
     T4 @ ''DC4A07862F3DA21800717C38 /* ehviewer appleUITests */,'' @ NL @
     T4 @ ID_PRODUCTS @ '' /* Products */,'' @ NL @
     T3 @ '');''\<close>

definition new_root :: string where
  \<open>new_root =
     T2 @ ID_MAIN_GROUP @ '' = {'' @ NL @
     T3 @ ''isa = PBXGroup;'' @ NL @
     T3 @ ''children = ('' @ NL @
     T4 @ ''DC4A076A2F3DA21800717C38 /* ehviewer apple */,'' @ NL @
     T4 @ ID_SYNC_GROUP @ '' /* EhDownloadWidget */,'' @ NL @
     T4 @ ''DC4A07862F3DA21800717C38 /* ehviewer appleUITests */,'' @ NL @
     T4 @ ID_PRODUCTS @ '' /* Products */,'' @ NL @
     T3 @ '');''\<close>

definition native_target :: string where
  \<open>native_target =
     T2 @ ID_TARGET @ '' /* EhDownloadWidget */ = {'' @ NL @
     T3 @ ''isa = PBXNativeTarget;'' @ NL @
     T3 @ ''buildConfigurationList = '' @ ID_CFG_LIST @ '' /* Build configuration list for PBXNativeTarget "EhDownloadWidget" */;'' @ NL @
     T3 @ ''buildPhases = ('' @ NL @
     T4 @ ID_SOURCES @ '' /* Sources */,'' @ NL @
     T4 @ ID_FRAMEWORKS @ '' /* Frameworks */,'' @ NL @
     T4 @ ID_RESOURCES @ '' /* Resources */,'' @ NL @
     T3 @ '');'' @ NL @
     T3 @ ''buildRules = ('' @ NL @
     T3 @ '');'' @ NL @
     T3 @ ''dependencies = ('' @ NL @
     T3 @ '');'' @ NL @
     T3 @ ''fileSystemSynchronizedGroups = ('' @ NL @
     T4 @ ID_SYNC_GROUP @ '' /* EhDownloadWidget */,'' @ NL @
     T3 @ '');'' @ NL @
     T3 @ ''name = EhDownloadWidget;'' @ NL @
     T3 @ ''packageProductDependencies = ('' @ NL @
     T3 @ '');'' @ NL @
     T3 @ ''productName = EhDownloadWidget;'' @ NL @
     T3 @ ''productReference = '' @ ID_PRODUCT_REF @ '' /* EhDownloadWidget.appex */;'' @ NL @
     T3 @ ''productType = "com.apple.product-type.app-extension";'' @ NL @
     T2 @ ''};'' @ NL\<close>

definition old_app_phases :: string where
  \<open>old_app_phases =
     T2 @ ID_APP_TARGET @ '' /* ehviewer apple */ = {'' @ NL @
     T3 @ ''isa = PBXNativeTarget;'' @ NL @
     T3 @ ''buildConfigurationList = DC4A078C2F3DA21800717C38 /* Build configuration list for PBXNativeTarget "ehviewer apple" */;'' @ NL @
     T3 @ ''buildPhases = ('' @ NL @
     T4 @ ''DC4A07642F3DA21800717C38 /* Sources */,'' @ NL @
     T4 @ ''DC4A07652F3DA21800717C38 /* Frameworks */,'' @ NL @
     T4 @ ''DC4A07662F3DA21800717C38 /* Resources */,'' @ NL @
     T3 @ '');'' @ NL @
     T3 @ ''buildRules = ('' @ NL @
     T3 @ '');'' @ NL @
     T3 @ ''dependencies = ('' @ NL @
     T3 @ '');''\<close>

definition new_app_phases :: string where
  \<open>new_app_phases =
     T2 @ ID_APP_TARGET @ '' /* ehviewer apple */ = {'' @ NL @
     T3 @ ''isa = PBXNativeTarget;'' @ NL @
     T3 @ ''buildConfigurationList = DC4A078C2F3DA21800717C38 /* Build configuration list for PBXNativeTarget "ehviewer apple" */;'' @ NL @
     T3 @ ''buildPhases = ('' @ NL @
     T4 @ ''DC4A07642F3DA21800717C38 /* Sources */,'' @ NL @
     T4 @ ''DC4A07652F3DA21800717C38 /* Frameworks */,'' @ NL @
     T4 @ ''DC4A07662F3DA21800717C38 /* Resources */,'' @ NL @
     T4 @ ID_EMBED_PHASE @ '' /* Embed Foundation Extensions */,'' @ NL @
     T3 @ '');'' @ NL @
     T3 @ ''buildRules = ('' @ NL @
     T3 @ '');'' @ NL @
     T3 @ ''dependencies = ('' @ NL @
     T4 @ ID_DEPENDENCY @ '' /* PBXTargetDependency */,'' @ NL @
     T3 @ '');''\<close>

definition res_phase :: string where
  \<open>res_phase =
     T2 @ ID_RESOURCES @ '' /* Resources */ = {'' @ NL @
     T3 @ ''isa = PBXResourcesBuildPhase;'' @ NL @
     T3 @ ''buildActionMask = 2147483647;'' @ NL @
     T3 @ ''files = ('' @ NL @
     T3 @ '');'' @ NL @
     T3 @ ''runOnlyForDeploymentPostprocessing = 0;'' @ NL @
     T2 @ ''};'' @ NL\<close>

definition src_phase :: string where
  \<open>src_phase =
     T2 @ ID_SOURCES @ '' /* Sources */ = {'' @ NL @
     T3 @ ''isa = PBXSourcesBuildPhase;'' @ NL @
     T3 @ ''buildActionMask = 2147483647;'' @ NL @
     T3 @ ''files = ('' @ NL @
     T3 @ '');'' @ NL @
     T3 @ ''runOnlyForDeploymentPostprocessing = 0;'' @ NL @
     T2 @ ''};'' @ NL\<close>

definition dep_entry :: string where
  \<open>dep_entry =
     T2 @ ID_DEPENDENCY @ '' /* PBXTargetDependency */ = {'' @ NL @
     T3 @ ''isa = PBXTargetDependency;'' @ NL @
     T3 @ ''target = '' @ ID_TARGET @ '' /* EhDownloadWidget */;'' @ NL @
     T3 @ ''targetProxy = '' @ ID_PROXY @ '' /* PBXContainerItemProxy */;'' @ NL @
     T2 @ ''};'' @ NL\<close>

definition cfg_debug :: string where
  \<open>cfg_debug =
     T2 @ ID_CFG_DEBUG @ '' /* Debug */ = {'' @ NL @
     T3 @ ''isa = XCBuildConfiguration;'' @ NL @
     T3 @ ''buildSettings = {'' @ NL @
     T4 @ ''ASSTCALOG_COMPILER_GLOBAL_ACCENT_COLOR_NAME = AccentColor;'' @ NL @
     T4 @ ''CODE_SIGN_STYLE = Automatic;'' @ NL @
     T4 @ ''CURRENT_PROJECT_VERSION = 1;'' @ NL @
     T4 @ ''DEVELOPMENT_TEAM = HWZEUNLCY6;'' @ NL @
     T4 @ ''GENERATE_INFOPLIST_FILE = YES;'' @ NL @
     T4 @ ''INFOPLIST_FILE = EhDownloadWidget/Info.plist;'' @ NL @
     T4 @ ''INFOPLIST_KEY_CFBundleDisplayName = EhDownloadWidget;'' @ NL @
     T4 @ ''INFOPLIST_KEY_NSHumanReadableCopyright = "";'' @ NL @
     T4 @ ''IPHONEOS_DEPLOYMENT_TARGET = 18.0;'' @ NL @
     T4 @ ''LD_RUNPATH_SEARCH_PATHS = ('' @ NL @
     T5 @ ''"$(inherited)",'' @ NL @
     T5 @ ''"@executable_path/Frameworks",'' @ NL @
     T5 @ ''"@executable_path/../../Frameworks",'' @ NL @
     T4 @ '');'' @ NL @
     T4 @ ''MARKETING_VERSION = 1.2.0;'' @ NL @
     T4 @ ''PRODUCT_BUNDLE_IDENTIFIER = "Stellatrix.ehviewer-apple.EhDownloadWidget";'' @ NL @
     T4 @ ''PRODUCT_NAME = "$(TARGET_NAME)";'' @ NL @
     T4 @ ''SDKROOT = iphoneos;'' @ NL @
     T4 @ ''SKIP_INSTALL = YES;'' @ NL @
     T4 @ ''STRING_CATALOG_GENERATE_SYMBOLS = YES;'' @ NL @
     T4 @ ''SUPPORTED_PLATFORMS = "iphoneos iphonesimulator";'' @ NL @
     T4 @ ''SWIFT_APPROACHABLE_CONCURRENCY = YES;'' @ NL @
     T4 @ ''SWIFT_EMIT_LOC_STRINGS = YES;'' @ NL @
     T4 @ ''SWIFT_VERSION = 5.0;'' @ NL @
     T4 @ ''TARGETED_DEVICE_FAMILY = "1,2";'' @ NL @
     T3 @ ''};'' @ NL @
     T3 @ ''name = Debug;'' @ NL @
     T2 @ ''};'' @ NL\<close>

definition cfg_release :: string where
  \<open>cfg_release =
     T2 @ ID_CFG_RELEASE @ '' /* Release */ = {'' @ NL @
     T3 @ ''isa = XCBuildConfiguration;'' @ NL @
     T3 @ ''buildSettings = {'' @ NL @
     T4 @ ''ASSTCALOG_COMPILER_GLOBAL_ACCENT_COLOR_NAME = AccentColor;'' @ NL @
     T4 @ ''CODE_SIGN_STYLE = Automatic;'' @ NL @
     T4 @ ''CURRENT_PROJECT_VERSION = 1;'' @ NL @
     T4 @ ''DEVELOPMENT_TEAM = HWZEUNLCY6;'' @ NL @
     T4 @ ''GENERATE_INFOPLIST_FILE = YES;'' @ NL @
     T4 @ ''INFOPLIST_FILE = EhDownloadWidget/Info.plist;'' @ NL @
     T4 @ ''INFOPLIST_KEY_CFBundleDisplayName = EhDownloadWidget;'' @ NL @
     T4 @ ''INFOPLIST_KEY_NSHumanReadableCopyright = "";'' @ NL @
     T4 @ ''IPHONEOS_DEPLOYMENT_TARGET = 18.0;'' @ NL @
     T4 @ ''LD_RUNPATH_SEARCH_PATHS = ('' @ NL @
     T5 @ ''"$(inherited)",'' @ NL @
     T5 @ ''"@executable_path/Frameworks",'' @ NL @
     T5 @ ''"@executable_path/../../Frameworks",'' @ NL @
     T4 @ '');'' @ NL @
     T4 @ ''MARKETING_VERSION = 1.2.0;'' @ NL @
     T4 @ ''PRODUCT_BUNDLE_IDENTIFIER = "Stellatrix.ehviewer-apple.EhDownloadWidget";'' @ NL @
     T4 @ ''PRODUCT_NAME = "$(TARGET_NAME)";'' @ NL @
     T4 @ ''SDKROOT = iphoneos;'' @ NL @
     T4 @ ''SKIP_INSTALL = YES;'' @ NL @
     T4 @ ''STRING_CATALOG_GENERATE_SYMBOLS = YES;'' @ NL @
     T4 @ ''SUPPORTED_PLATFORMS = "iphoneos iphonesimulator";'' @ NL @
     T4 @ ''SWIFT_APPROACHABLE_CONCURRENCY = YES;'' @ NL @
     T4 @ ''SWIFT_EMIT_LOC_STRINGS = YES;'' @ NL @
     T4 @ ''SWIFT_VERSION = 5.0;'' @ NL @
     T4 @ ''TARGETED_DEVICE_FAMILY = "1,2";'' @ NL @
     T3 @ ''};'' @ NL @
     T3 @ ''name = Release;'' @ NL @
     T2 @ ''};'' @ NL\<close>

definition cfg_list :: string where
  \<open>cfg_list =
     T2 @ ID_CFG_LIST @ '' /* Build configuration list for PBXNativeTarget "EhDownloadWidget" */ = {'' @ NL @
     T3 @ ''isa = XCConfigurationList;'' @ NL @
     T3 @ ''buildConfigurations = ('' @ NL @
     T4 @ ID_CFG_DEBUG @ '' /* Debug */,'' @ NL @
     T4 @ ID_CFG_RELEASE @ '' /* Release */,'' @ NL @
     T3 @ '');'' @ NL @
     T3 @ ''defaultConfigurationIsVisible = 0;'' @ NL @
     T3 @ ''defaultConfigurationName = Release;'' @ NL @
     T2 @ ''};'' @ NL\<close>

definition old_targets :: string where
  \<open>old_targets =
     T3 @ ''targets = ('' @ NL @
     T4 @ ID_APP_TARGET @ '' /* ehviewer apple */,'' @ NL @
     T4 @ ''DC4A07782F3DA21800717C38 /* ehviewer appleTests */,'' @ NL @
     T4 @ ''DC4A07822F3DA21800717C38 /* ehviewer appleUITests */,'' @ NL @
     T3 @ '');''\<close>

definition new_targets :: string where
  \<open>new_targets =
     T3 @ ''targets = ('' @ NL @
     T4 @ ID_APP_TARGET @ '' /* ehviewer apple */,'' @ NL @
     T4 @ ''DC4A07782F3DA21800717C38 /* ehviewer appleTests */,'' @ NL @
     T4 @ ''DC4A07822F3DA21800717C38 /* ehviewer appleUITests */,'' @ NL @
     T4 @ ID_TARGET @ '' /* EhDownloadWidget */,'' @ NL @
     T3 @ '');''\<close>

definition old_attrs :: string where
  \<open>old_attrs =
     T5 @ ID_APP_TARGET @ '' = {'' @ NL @
     T6 @ ''CreatedOnToolsVersion = 26.2;'' @ NL @
     T5 @ ''};''\<close>

definition new_attrs :: string where
  \<open>new_attrs =
     T5 @ ID_APP_TARGET @ '' = {'' @ NL @
     T6 @ ''CreatedOnToolsVersion = 26.2;'' @ NL @
     T5 @ ''};'' @ NL @
     T5 @ ID_TARGET @ '' = {'' @ NL @
     T6 @ ''CreatedOnToolsVersion = 26.2;'' @ NL @
     T5 @ ''};''\<close>

subsection \<open>The sixteen substitutions, in the order of the script\<close>

definition patch :: "string \<Rightarrow> string" where
  \<open>patch content0 =
    (let content = str_replace content0
           ''/* End PBXBuildFile section */''
           (build_file_entry @ ''/* End PBXBuildFile section */'');
         content = str_replace content
           ''/* End PBXContainerItemProxy section */''
           (proxy_entry @ ''/* End PBXContainerItemProxy section */'');
         content = str_replace content
           ''/* Begin PBXFileReference section */''
           (copy_phase @ ''/* Begin PBXFileReference section */'');
         content = str_replace content
           ''/* End PBXFileReference section */''
           (file_ref @ ''/* End PBXFileReference section */'');
         content = str_replace content
           ''/* End PBXFileSystemSynchronizedRootGroup section */''
           (sync_group @ ''/* End PBXFileSystemSynchronizedRootGroup section */'');
         content = str_replace content
           ''/* End PBXFrameworksBuildPhase section */''
           (fw_phase @ ''/* End PBXFrameworksBuildPhase section */'');
         content = str_replace content old_products new_products;
         content = str_replace content old_root new_root;
         content = str_replace content
           ''/* End PBXNativeTarget section */''
           (native_target @ ''/* End PBXNativeTarget section */'');
         content = str_replace content old_targets new_targets;
         content = str_replace content old_attrs new_attrs;
         content = str_replace content old_app_phases new_app_phases;
         content = str_replace content
           ''/* End PBXResourcesBuildPhase section */''
           (res_phase @ ''/* End PBXResourcesBuildPhase section */'');
         content = str_replace content
           ''/* End PBXSourcesBuildPhase section */''
           (src_phase @ ''/* End PBXSourcesBuildPhase section */'');
         content = str_replace content
           ''/* End PBXTargetDependency section */''
           (dep_entry @ ''/* End PBXTargetDependency section */'');
         content = str_replace content
           ''/* End XCBuildConfiguration section */''
           (cfg_debug @ cfg_release @ ''/* End XCBuildConfiguration section */'');
         content = str_replace content
           ''/* End XCConfigurationList section */''
           (cfg_list @ ''/* End XCConfigurationList section */'')
     in content)\<close>

text \<open>
  The same sixteen (old, new) pairs as a list, for statements that speak about one step
  among the others; \<open>patch_apply_all\<close> below shows that folding the list is \<open>patch\<close>.
\<close>

definition substitutions :: "(string \<times> string) list" where
  \<open>substitutions =
    [(''/* End PBXBuildFile section */'',
        build_file_entry @ ''/* End PBXBuildFile section */''),
     (''/* End PBXContainerItemProxy section */'',
        proxy_entry @ ''/* End PBXContainerItemProxy section */''),
     (''/* Begin PBXFileReference section */'',
        copy_phase @ ''/* Begin PBXFileReference section */''),
     (''/* End PBXFileReference section */'',
        file_ref @ ''/* End PBXFileReference section */''),
     (''/* End PBXFileSystemSynchronizedRootGroup section */'',
        sync_group @ ''/* End PBXFileSystemSynchronizedRootGroup section */''),
     (''/* End PBXFrameworksBuildPhase section */'',
        fw_phase @ ''/* End PBXFrameworksBuildPhase section */''),
     (old_products, new_products),
     (old_root, new_root),
     (''/* End PBXNativeTarget section */'',
        native_target @ ''/* End PBXNativeTarget section */''),
     (old_targets, new_targets),
     (old_attrs, new_attrs),
     (old_app_phases, new_app_phases),
     (''/* End PBXResourcesBuildPhase section */'',
        res_phase @ ''/* End PBXResourcesBuildPhase section */''),
     (''/* End PBXSourcesBuildPhase section */'',
        src_phase @ ''/* End PBXSourcesBuildPhase section */''),
     (''/* End PBXTargetDependency section */'',
        dep_entry @ ''/* End PBXTargetDependency section */''),
     (''/* End XCBuildConfiguration section */'',
        cfg_debug @ cfg_release @ ''/* End XCBuildConfiguration section */''),
     (''/* End XCConfigurationList section */'',
        cfg_list @ ''/* End XCConfigurationList section */'')]\<close>

fun apply_all :: "(string \<times> string) list \<Rightarrow> string \<Rightarrow> string" where
  "apply_all [] content = content"
| "apply_all ((old, new) # rest) content = apply_all rest (str_replace content old new)"

text \<open>The end-of-section markers of the eleven append-before-marker steps.\<close>

definition end_marker_steps :: "(string \<times> string) list" where
  "end_marker_steps = filter (\<lambda>(old, new). take 6 old = ''/* End'') substitutions"


text \<open>\<^verbatim>\<open>s.count(old)\<close>: the number of occurrences \<^verbatim>\<open>replace\<close> rewrites.\<close>

fun str_count :: "string \<Rightarrow> string \<Rightarrow> nat" where
  "str_count s [] = Suc (length s)"
| "str_count [] (a # old) = 0"
| "str_count (c # cs) (a # old) =
     (if prefix (a # old) (c # cs)
      then Suc (str_count (drop (length old) cs) (a # old))
      else str_count cs (a # old))"

text \<open>The lines of a text, split at the newline character.\<close>

fun split_lines :: "string \<Rightarrow> string list" where
  "split_lines [] = [[]]"
| "split_lines (c # cs) =
     (if c = CHR 0x0A then [] # split_lines cs
      else (case split_lines cs of l # ls \<Rightarrow> (c # l) # ls | [] \<Rightarrow> [[c]]))"

subsection \<open>The script around the substitutions\<close>

text \<open>
  The environment of the script: the command line, a file system that maps a path to a
  file with its permissions, and the lines printed.  \<^verbatim>\<open>open(path, 'r')\<close> raises when the
  file is missing or unreadable, \<^verbatim>\<open>open(path, 'w')\<close> when it is unwritable; the script
  catches nothing, so an exception ends the run at that statement.
\<close>

datatype io_error = FileNotFoundError | PermissionError

datatype file_node = File (readable: bool) (writable: bool) (text_of: string)

type_synonym filesystem = "string \<rightharpoonup> file_node"

record run_result =
  files :: filesystem
  stdout :: "string list"
  raised :: "io_error option"

definition PBXPROJ_PATH :: "string list \<Rightarrow> string" where
  "PBXPROJ_PATH argv =
     (if length argv > 1 then argv ! 1 else ''ehviewer apple.xcodeproj/project.pbxproj'')"

definition open_read :: "filesystem \<Rightarrow> string \<Rightarrow> io_error + string" where
  "open_read fs path =
     (case fs path of
        None \<Rightarrow> Inl FileNotFoundError
      | Some f \<Rightarrow> if readable f then Inr (text_of f) else Inl PermissionError)"

definition open_write :: "filesystem \<Rightarrow> string \<Rightarrow> string \<Rightarrow> io_error + filesystem" where
  "open_write fs path txt =
     (case fs path of
        None \<Rightarrow> Inr (fs(path \<mapsto> File True True txt))
      | Some f \<Rightarrow> if writable f then Inr (fs(path \<mapsto> File (readable f) True txt))
                 else Inl PermissionError)"

text \<open>The printed line; its first seven bytes are the script's (doubly encoded) check mark.\<close>

definition success_message :: string where
  "success_message =
     [CHR 0xC3, CHR 0xA2, CHR 0xC5, CHR 0x93, CHR 0xE2, CHR 0x80, CHR 0xA6] @
     '' Successfully added EhDownloadWidget extension target to project.pbxproj''"

definition main :: "string list \<Rightarrow> filesystem \<Rightarrow> run_result" where
  "main argv fs =
     (case open_read fs (PBXPROJ_PATH argv) of
        Inl e \<Rightarrow> \<lparr>files = fs, stdout = [], raised = Some e\<rparr>
      | Inr content \<Rightarrow>
          (case open_write fs (PBXPROJ_PATH argv) (patch content) of
             Inl e \<Rightarrow> \<lparr>files = fs, stdout = [], raised = Some e\<rparr>
           | Inr fs' \<Rightarrow> \<lparr>files = fs', stdout = [success_message], raised = None\<rparr>))"


text \<open>A file system without any file.\<close>

definition no_files :: filesystem where
  "no_files = Map.empty"

section \<open>Properties\<close>

subsection \<open>Unfolding the literals\<close>

lemmas id_defs =
  ID_TARGET_def ID_PRODUCT_REF_def ID_SYNC_GROUP_def ID_FRAMEWORKS_def ID_SOURCES_def
  ID_RESOURCES_def ID_EMBED_PHASE_def ID_PROXY_def ID_DEPENDENCY_def ID_CFG_DEBUG_def
  ID_CFG_RELEASE_def ID_CFG_LIST_def ID_EMBED_FILE_def ID_PROJECT_def ID_APP_TARGET_def
  ID_PRODUCTS_def ID_MAIN_GROUP_def

lemmas ws_defs = T1_def T2_def T3_def T4_def T5_def T6_def NL_def

lemmas block_defs =
  build_file_entry_def proxy_entry_def copy_phase_def file_ref_def sync_group_def
  fw_phase_def old_products_def new_products_def old_root_def new_root_def
  native_target_def old_targets_def new_targets_def old_attrs_def new_attrs_def
  old_app_phases_def new_app_phases_def res_phase_def src_phase_def dep_entry_def
  cfg_debug_def cfg_release_def cfg_list_def

lemma patch_apply_all: "patch s = apply_all substitutions s"
  by (simp add: patch_def substitutions_def Let_def)


subsection \<open>One substitution\<close>

lemma str_replace_match:
  assumes "prefix (a # old) (c # cs)"
  shows "str_replace (c # cs) (a # old) new =
         new @ str_replace (drop (length old) cs) (a # old) new"
    and "str_count (c # cs) (a # old) = Suc (str_count (drop (length old) cs) (a # old))"
    and "c # cs = (a # old) @ drop (length old) cs"
proof -
  from assms obtain r where r: "c # cs = (a # old) @ r" by (auto simp: prefix_def)
  then have "drop (length old) cs = r" by simp
  with r show "c # cs = (a # old) @ drop (length old) cs" by simp
  from assms show "str_replace (c # cs) (a # old) new =
         new @ str_replace (drop (length old) cs) (a # old) new" by simp
  from assms show "str_count (c # cs) (a # old) =
         Suc (str_count (drop (length old) cs) (a # old))" by simp
qed

lemma str_replace_skip:
  assumes "\<not> prefix (a # old) (c # cs)"
  shows "str_replace (c # cs) (a # old) new = c # str_replace cs (a # old) new"
    and "str_count (c # cs) (a # old) = str_count cs (a # old)"
  using assms by auto


lemma str_count_absent:
  "old \<noteq> [] \<Longrightarrow> \<not> sublist old s \<Longrightarrow> str_count s old = 0"
proof (induction s old rule: str_count.induct)
  case (3 c cs a old)
  from "3.prems" have np: "\<not> prefix (a # old) (c # cs)" and ns: "\<not> sublist (a # old) cs"
    by (auto simp: sublist_Cons_right)
  from "3.IH"(2) [OF np] ns have "str_count cs (a # old) = 0" by simp
  with str_replace_skip(2) [OF np] show ?case by simp
qed simp_all

lemma str_count_present:
  "old \<noteq> [] \<Longrightarrow> sublist old s \<Longrightarrow> 0 < str_count s old"
proof (induction s old rule: str_count.induct)
  case (3 c cs a old)
  show ?case
  proof (cases "prefix (a # old) (c # cs)")
    case True
    from str_replace_match(2) [OF True] show ?thesis by simp
  next
    case False
    with "3.prems" have "sublist (a # old) cs" by (auto simp: sublist_Cons_right)
    with "3.IH"(2) [OF False] have "0 < str_count cs (a # old)" by simp
    with str_replace_skip(2) [OF False] show ?thesis by simp
  qed
qed simp_all

text \<open>The exact length of the result: every rewritten occurrence trades \<open>old\<close> for \<open>new\<close>.\<close>

lemma str_replace_length:
  "old \<noteq> [] \<Longrightarrow>
   length (str_replace s old new) + str_count s old * length old =
   length s + str_count s old * length new"
proof (induction s old new rule: str_replace.induct)
  case (3 c cs a old new)
  show ?case
  proof (cases "prefix (a # old) (c # cs)")
    case True
    define t where "t = drop (length old) cs"
    define n where "n = str_count t (a # old)"
    have r: "str_replace (c # cs) (a # old) new = new @ str_replace t (a # old) new"
      unfolding t_def by (rule str_replace_match(1) [OF True])
    have k: "str_count (c # cs) (a # old) = Suc n"
      unfolding t_def n_def by (rule str_replace_match(2) [OF True])
    have l: "c # cs = (a # old) @ t"
      unfolding t_def by (rule str_replace_match(3) [OF True])
    from "3.IH"(1) [OF True] have
      ih: "length (str_replace t (a # old) new) + n * length (a # old) = length t + n * length new"
      by (simp add: t_def n_def)
    have "length (c # cs) = length (a # old) + length t"
      by (subst l) simp
    with ih show ?thesis unfolding r k by (simp add: algebra_simps)
  next
    case False
    from "3.IH"(2) [OF False] str_replace_skip(1) [OF False, of new] str_replace_skip(2) [OF False]
    show ?thesis by simp
  qed
qed simp_all

lemma str_replace_length_mono:
  assumes "old \<noteq> []" "length old \<le> length new"
  shows "length s \<le> length (str_replace s old new)"
proof -
  have "str_count s old * length old \<le> str_count s old * length new"
    using assms(2) by simp
  with str_replace_length [OF assms(1), of s new] show ?thesis by linarith
qed

lemma str_replace_length_strict:
  assumes "old \<noteq> []" "length old < length new" "sublist old s"
  shows "length s < length (str_replace s old new)"
proof -
  have "0 < str_count s old" using assms(1,3) by (rule str_count_present)
  then have "str_count s old * length old < str_count s old * length new"
    using assms(2) by simp
  with str_replace_length [OF assms(1), of s new] show ?thesis by linarith
qed

subsection \<open>Lengths\<close>

lemma substitutions_grow:
  "list_all (\<lambda>(old, new). old \<noteq> [] \<and> length old < length new) substitutions"
  by (simp add: substitutions_def block_defs id_defs ws_defs)

lemma apply_all_length_mono:
  "list_all (\<lambda>(old, new). old \<noteq> [] \<and> length old < length new) ps \<Longrightarrow>
   length s \<le> length (apply_all ps s)"
proof (induction ps arbitrary: s)
  case Nil
  show ?case by simp
next
  case (Cons p ps)
  obtain old new where p: "p = (old, new)" by (cases p)
  from Cons.prems p have o: "old \<noteq> []" "length old \<le> length new"
    and r: "list_all (\<lambda>(old, new). old \<noteq> [] \<and> length old < length new) ps"
    by simp_all
  have "length s \<le> length (str_replace s old new)"
    using o by (rule str_replace_length_mono)
  also have "\<dots> \<le> length (apply_all ps (str_replace s old new))"
    using r by (rule Cons.IH)
  finally show ?case by (simp add: p)
qed

text \<open>
  Claim C10.  For every input text, well-formed or not, the output of the sixteen
  substitutions is at least as long as the input: each step replaces a text by a strictly
  longer one, so no step removes text.
\<close>

theorem patch_never_shrinks: "length s \<le> length (patch s)"
  unfolding patch_apply_all using substitutions_grow by (rule apply_all_length_mono)

subsection \<open>Presence, absence and the run as a whole\<close>

lemma str_replace_present:
  "old \<noteq> [] \<Longrightarrow> sublist old s \<Longrightarrow> sublist new (str_replace s old new)"
proof (induction s old new rule: str_replace.induct)
  case (3 c cs a old new)
  show ?case
  proof (cases "prefix (a # old) (c # cs)")
    case True
    from str_replace_match(1) [OF True] show ?thesis by simp
  next
    case False
    with "3.prems" have "sublist (a # old) cs" by (auto simp: sublist_Cons_right)
    with "3.IH"(2) [OF False] have "sublist new (str_replace cs (a # old) new)" by simp
    then have "sublist new (c # str_replace cs (a # old) new)"
      by (simp add: sublist_Cons_right)
    with str_replace_skip(1) [OF False] show ?thesis by simp
  qed
qed simp_all


lemma end_marker_steps_eval:
  "map fst end_marker_steps =
    [''/* End PBXBuildFile section */'', ''/* End PBXContainerItemProxy section */'',
     ''/* End PBXFileReference section */'',
     ''/* End PBXFileSystemSynchronizedRootGroup section */'',
     ''/* End PBXFrameworksBuildPhase section */'', ''/* End PBXNativeTarget section */'',
     ''/* End PBXResourcesBuildPhase section */'', ''/* End PBXSourcesBuildPhase section */'',
     ''/* End PBXTargetDependency section */'', ''/* End XCBuildConfiguration section */'',
     ''/* End XCConfigurationList section */'']"
  by (simp add: end_marker_steps_def substitutions_def old_products_def old_root_def
        old_targets_def old_attrs_def old_app_phases_def id_defs ws_defs)











subsection \<open>The Products group\<close>

lemma split_old_products:
  "split_lines old_products =
     [T2 @ ID_PRODUCTS @ '' /* Products */ = {'',
      T3 @ ''isa = PBXGroup;'',
      T3 @ ''children = ('',
      T4 @ ''DC4A07682F3DA21800717C38 /* ehviewer apple.app */,'',
      T4 @ ''DC4A07792F3DA21800717C38 /* ehviewer appleTests.xctest */,'',
      T4 @ ''DC4A07832F3DA21800717C38 /* ehviewer appleUITests.xctest */,'',
      T3 @ '');'']"
  by (simp add: old_products_def id_defs ws_defs)

lemma split_new_products:
  "split_lines new_products =
     [T2 @ ID_PRODUCTS @ '' /* Products */ = {'',
      T3 @ ''isa = PBXGroup;'',
      T3 @ ''children = ('',
      T4 @ ''DC4A07682F3DA21800717C38 /* ehviewer apple.app */,'',
      T4 @ ''DC4A07792F3DA21800717C38 /* ehviewer appleTests.xctest */,'',
      T4 @ ''DC4A07832F3DA21800717C38 /* ehviewer appleUITests.xctest */,'',
      T4 @ ID_PRODUCT_REF @ '' /* EhDownloadWidget.appex */,'',
      T3 @ '');'']"
  by (simp add: new_products_def id_defs ws_defs)

text \<open>
  Claim C5.  The new Products-group block is the old block with exactly one line added to
  the children list, the reference to EhDownloadWidget.appex: the lines of the old block
  are unchanged and each is literally contained in the new block; and for every text that
  contains the old block, the replacement step yields a text that contains the new block.
\<close>

theorem products_block_superset:
  "split_lines new_products =
     take 6 (split_lines old_products) @
     [T4 @ ID_PRODUCT_REF @ '' /* EhDownloadWidget.appex */,''] @
     drop 6 (split_lines old_products) \<and>
   list_all (\<lambda>l. sublist l new_products) (split_lines old_products) \<and>
   (sublist old_products s \<longrightarrow>
      sublist new_products (str_replace s old_products new_products))"
proof -
  have a: "split_lines new_products =
     take 6 (split_lines old_products) @
     [T4 @ ID_PRODUCT_REF @ '' /* EhDownloadWidget.appex */,''] @
     drop 6 (split_lines old_products)"
    by (simp add: split_old_products split_new_products)
  have b: "list_all (\<lambda>l. sublist l new_products) (split_lines old_products)"
    unfolding split_old_products
    by (simp add: new_products_def id_defs ws_defs sublist_Cons_right)
  have "old_products \<noteq> []" by (simp add: old_products_def ws_defs)
  then have c: "sublist old_products s \<longrightarrow>
      sublist new_products (str_replace s old_products new_products)"
    by (simp add: str_replace_present)
  from a b c show ?thesis by simp
qed

theorem products_block_superset_witness:
  "sublist old_products old_products \<and>
   sublist new_products (str_replace old_products old_products new_products)"
  using products_block_superset [of old_products] by simp

subsection \<open>Command line, files and the printed line\<close>



text \<open>
  Claim C8.  When the file cannot be read (it is missing or unreadable) the exception ends
  the run: nothing is printed, nothing is written, the file system is left as it was.
\<close>

theorem read_failure_is_fatal:
  assumes "fs (PBXPROJ_PATH argv) = None \<or>
           (\<exists>f. fs (PBXPROJ_PATH argv) = Some f \<and> \<not> readable f)"
  shows "files (main argv fs) = fs \<and> stdout (main argv fs) = [] \<and>
         raised (main argv fs) =
           Some (if fs (PBXPROJ_PATH argv) = None then FileNotFoundError else PermissionError)"
  using assms by (auto simp: main_def open_read_def)

theorem read_failure_is_fatal_witness:
  "no_files (PBXPROJ_PATH [''add_widget_target.py'']) = None \<and>
   files (main [''add_widget_target.py''] no_files) = no_files \<and>
   stdout (main [''add_widget_target.py''] no_files) = [] \<and>
   raised (main [''add_widget_target.py''] no_files) = Some FileNotFoundError"
proof -
  have a: "no_files (PBXPROJ_PATH [''add_widget_target.py'']) = None"
    by (simp add: no_files_def)
  from read_failure_is_fatal [where fs = no_files and argv = "[''add_widget_target.py'']"] a
  show ?thesis by simp
qed



end
